theory Spec2Isabelle
  imports Complex_Main "HOL-Library.Multiset" "HOL-Library.Product_Lexorder"
begin

section \<open>Strings\<close>

text \<open>
  A Python \<open>str\<close> is a sequence of Unicode code points and most literals of
  \<open>tourism_recommender.py\<close> are Chinese, so a string is modelled as the list of its code
  points. The literals of the source are given below by their code points.
\<close>

type_synonym ustr = "nat list"

definition area_yunlong :: ustr where "area_yunlong = [20113, 40857, 21306]"
definition area_quanshan :: ustr where "area_quanshan = [27849, 23665, 21306]"
definition area_gulou :: ustr where "area_gulou = [40723, 27004, 21306]"
definition area_tongshan :: ustr where "area_tongshan = [38108, 23665, 21306]"
definition area_jiawang :: ustr where "area_jiawang = [36158, 27754, 21306]"
definition area_pizhou :: ustr where "area_pizhou = [37043, 24030, 24066]"
definition area_xinyi :: ustr where "area_xinyi = [26032, 27778, 24066]"
definition area_suining :: ustr where "area_suining = [30562, 23425, 21439]"
definition area_peixian :: ustr where "area_peixian = [27803, 21439]"
definition area_fengxian :: ustr where "area_fengxian = [20016, 21439]"
definition area_unknown :: ustr where "area_unknown = [26410, 30693, 21306, 22495]"

lemmas area_defs =
  area_yunlong_def area_quanshan_def area_gulou_def area_tongshan_def area_jiawang_def
  area_pizhou_def area_xinyi_def area_suining_def area_peixian_def area_fengxian_def

section \<open>Area tables of \<open>_preprocess_data\<close>\<close>

text \<open>The dictionary literal \<open>self.travel_times\<close> (minutes), in the order it is written.\<close>

definition travel_times_literal :: "((ustr \<times> ustr) \<times> int) list" where
  "travel_times_literal =
    [((area_yunlong, area_quanshan), 20),
     ((area_yunlong, area_gulou), 15),
     ((area_quanshan, area_tongshan), 25),
     ((area_gulou, area_jiawang), 40),
     ((area_tongshan, area_suining), 60),
     ((area_jiawang, area_pizhou), 50),
     ((area_pizhou, area_xinyi), 45),
     ((area_peixian, area_fengxian), 30)]"

text \<open>
  The loop \<open>for (a, b), time in list(self.travel_times.items()):
  self.travel_times[(b, a)] = time\<close>: it runs over a snapshot of the items and stores the
  reversed pair of each one in the dictionary.
\<close>

definition make_bidirectional ::
  "((ustr \<times> ustr) \<rightharpoonup> int) \<Rightarrow> ((ustr \<times> ustr) \<times> int) list \<Rightarrow> ((ustr \<times> ustr) \<rightharpoonup> int)" where
  "make_bidirectional d items = foldl (\<lambda>d ((a, b), t). d((b, a) \<mapsto> t)) d items"

definition travel_times :: "(ustr \<times> ustr) \<rightharpoonup> int" where
  "travel_times = make_bidirectional (map_of travel_times_literal) travel_times_literal"

text \<open>The dictionary \<open>self.adjacent_areas\<close>.\<close>

definition adjacent_areas :: "ustr \<rightharpoonup> ustr list" where
  "adjacent_areas = map_of
    [(area_yunlong, [area_quanshan, area_gulou]),
     (area_quanshan, [area_yunlong, area_tongshan]),
     (area_gulou, [area_yunlong, area_jiawang]),
     (area_tongshan, [area_quanshan, area_suining]),
     (area_jiawang, [area_gulou, area_pizhou]),
     (area_pizhou, [area_jiawang, area_xinyi]),
     (area_xinyi, [area_pizhou]),
     (area_suining, [area_tongshan]),
     (area_peixian, [area_fengxian]),
     (area_fengxian, [area_peixian])]"

definition get_adjacent_areas :: "ustr \<Rightarrow> ustr list" where
  "get_adjacent_areas area = (case adjacent_areas area of Some l \<Rightarrow> l | None \<Rightarrow> [])"

definition get_travel_time :: "ustr \<Rightarrow> ustr \<Rightarrow> int" where
  "get_travel_time area1 area2 =
     (if area1 = area2 then 0
      else case travel_times (area1, area2) of Some t \<Rightarrow> t | None \<Rightarrow> 90)"

definition get_actual_travel_time :: "ustr \<Rightarrow> ustr \<Rightarrow> int" where
  "get_actual_travel_time area1 area2 =
     (let base_time = get_travel_time area1 area2
      in if area1 = area2 then 15 else base_time + 30)"

section \<open>Day groups of \<open>generate_travel_plan\<close>\<close>

text \<open>
  \<open>daily_attractions = [[] for _ in date_range]\<close>, then for each \<open>(i, attr)\<close> of
  \<open>enumerate(attractions_info)\<close> the attraction is appended to the group
  \<open>i % len(date_range)\<close>. The code runs this only under \<open>if date_range:\<close>, that is for a
  non-empty range.
\<close>

definition assign_day :: "nat \<Rightarrow> 'a list list \<Rightarrow> nat \<times> 'a \<Rightarrow> 'a list list" where
  "assign_day ndays daily p =
     (let day_idx = fst p mod ndays in daily[day_idx := daily ! day_idx @ [snd p]])"

definition daily_attractions :: "'d list \<Rightarrow> 'a list \<Rightarrow> 'a list list" where
  "daily_attractions date_range attractions_info =
     foldl (assign_day (length date_range)) (replicate (length date_range) [])
       (enumerate 0 attractions_info)"

section \<open>Route optimizer\<close>

text \<open>
  The dictionaries that \<open>generate_travel_plan\<close> builds for the selected attractions and
  hands to \<open>_optimize_route\<close>. The score is a float in the source; it is modelled by a
  rational number. The key \<open>'themes'\<close> is the field \<open>theme_names\<close>.
\<close>

record attraction_info =
  name :: ustr
  address :: ustr
  opening_hours :: "ustr option"
  theme_names :: "ustr list"
  description :: ustr
  score :: rat
  area :: ustr
  comment_count :: nat

text \<open>
  \<open>min(unvisited, key=...)\<close>: Python's \<open>min\<close> keeps the first element of the iteration
  whose key is minimal. \<open>unvisited\<close> is a set of small integers built from
  \<open>range(1, n)\<close>; it is modelled by the list of its elements in increasing order, the
  order in which CPython iterates such a set.
\<close>

fun py_min_key :: "('a \<Rightarrow> int) \<Rightarrow> 'a \<Rightarrow> 'a list \<Rightarrow> 'a" where
  "py_min_key key best [] = best"
| "py_min_key key best (x # xs) =
     (if key x < key best then py_min_key key x xs else py_min_key key best xs)"

lemma py_min_key_in: "py_min_key key b xs \<in> set (b # xs)"
  by (induction xs arbitrary: b) auto

text \<open>The nearest-neighbour loop \<open>while unvisited: ...\<close> of \<open>_solve_tsp\<close>.\<close>

function nearest_neighbor :: "int list list \<Rightarrow> nat list \<Rightarrow> nat list \<Rightarrow> nat list" where
  "nearest_neighbor time_matrix path unvisited =
     (if unvisited = [] then path
      else
        let last_node = last path;
            next_node = py_min_key (\<lambda>x. time_matrix ! last_node ! x) (hd unvisited) (tl unvisited)
        in nearest_neighbor time_matrix (path @ [next_node]) (remove1 next_node unvisited))"
  by pat_completeness auto
termination
proof (relation "measure (\<lambda>(m, p, u). length u)")
  show "wf (measure (\<lambda>(m, p, u). length u))" by simp
next
  fix time_matrix :: "int list list" and path unvisited :: "nat list" and x xa
  assume ne: "unvisited \<noteq> []"
    and "xa = py_min_key (\<lambda>x'. time_matrix ! x ! x') (hd unvisited) (tl unvisited)"
  then have "xa \<in> set (hd unvisited # tl unvisited)" by (simp only: py_min_key_in)
  with ne have "xa \<in> set unvisited" by simp
  then have "length (remove1 xa unvisited) < length unvisited"
    by (simp add: length_remove1) (cases unvisited, auto)
  then show "((time_matrix, path @ [xa], remove1 xa unvisited), (time_matrix, path, unvisited))
      \<in> measure (\<lambda>(m, p, u). length u)" by simp
qed

text \<open>
  The 2-opt loop. \<open>succ_node\<close> is the expression \<open>path[j + 1] if j + 1 < n else 0\<close>,
  \<open>delta\<close> the difference computed for the pair \<open>(i, j)\<close>, and \<open>reverse_segment\<close> the slice
  assignment \<open>path[i:j + 1] = path[j:i - 1:-1]\<close> (the loop has \<open>1 \<le> i\<close>, so the slice on
  the right is the elements at positions \<open>j, j - 1, ..., i\<close>).
\<close>

definition succ_node :: "nat list \<Rightarrow> nat \<Rightarrow> nat \<Rightarrow> nat" where
  "succ_node path j n = (if j + 1 < n then path ! (j + 1) else 0)"

definition delta :: "int list list \<Rightarrow> nat list \<Rightarrow> nat \<Rightarrow> nat \<Rightarrow> nat \<Rightarrow> int" where
  "delta time_matrix path i j n =
     time_matrix ! (path ! (i - 1)) ! (path ! j) +
     time_matrix ! (path ! i) ! (succ_node path j n) -
     time_matrix ! (path ! (i - 1)) ! (path ! i) -
     time_matrix ! (path ! j) ! (succ_node path j n)"

definition reverse_segment :: "nat list \<Rightarrow> nat \<Rightarrow> nat \<Rightarrow> nat list" where
  "reverse_segment path i j =
     take i path @ rev (take (j + 1 - i) (drop i path)) @ drop (j + 1) path"

text \<open>The body of the two nested \<open>for\<close> loops, on the state \<open>(path, improved)\<close>.\<close>

definition two_opt_step ::
  "int list list \<Rightarrow> nat \<Rightarrow> nat list \<times> bool \<Rightarrow> nat \<times> nat \<Rightarrow> nat list \<times> bool" where
  "two_opt_step time_matrix n st ij =
     (let path = fst st; improved = snd st; i = fst ij; j = snd ij
      in if j - i = 1 then (path, improved)
         else if delta time_matrix path i j n < 0 then (reverse_segment path i j, True)
         else (path, improved))"

text \<open>The pairs \<open>for i in range(1, n - 2): for j in range(i + 1, n)\<close>, in order.\<close>

definition two_opt_pairs :: "nat \<Rightarrow> (nat \<times> nat) list" where
  "two_opt_pairs n = concat (map (\<lambda>i. map (\<lambda>j. (i, j)) [i + 1..<n]) [1..<n - 2])"

definition two_opt_sweep :: "int list list \<Rightarrow> nat \<Rightarrow> nat list \<Rightarrow> nat list \<times> bool" where
  "two_opt_sweep time_matrix n path =
     foldl (two_opt_step time_matrix n) (path, False) (two_opt_pairs n)"

text \<open>
  \<open>while improved:\<close> The loop has no bound in the source, so it is a partial function:
  \<open>None\<close> is the loop that never stops.
\<close>

partial_function (option) two_opt_loop ::
  "int list list \<Rightarrow> nat \<Rightarrow> nat list \<Rightarrow> nat list option" where
  "two_opt_loop time_matrix n path =
     (case two_opt_sweep time_matrix n path of
        (path', improved) \<Rightarrow>
          if improved then two_opt_loop time_matrix n path' else Some path')"

definition nearest_neighbor_tour :: "int list list \<Rightarrow> nat list" where
  "nearest_neighbor_tour time_matrix = nearest_neighbor time_matrix [0] [1..<length time_matrix]"

definition solve_tsp :: "int list list \<Rightarrow> nat list option" where
  "solve_tsp time_matrix =
     (let n = length time_matrix
      in if n \<le> 1 then Some [0]
         else two_opt_loop time_matrix n (nearest_neighbor_tour time_matrix))"

definition time_matrix_of :: "attraction_info list \<Rightarrow> int list list" where
  "time_matrix_of attractions =
     (let locations = map (\<lambda>attr. (area attr, name attr)) attractions
      in map (\<lambda>start. map (\<lambda>end. get_actual_travel_time (fst start) (fst end)) locations)
           locations)"

definition optimize_route :: "attraction_info list \<Rightarrow> attraction_info list option" where
  "optimize_route attractions =
     (if length attractions \<le> 2 then Some attractions
      else case solve_tsp (time_matrix_of attractions) of
             None \<Rightarrow> None
           | Some optimized_indices \<Rightarrow> Some (map (\<lambda>i. attractions ! i) optimized_indices))"

text \<open>
  The cost of a tour: the sum of the costs of consecutive stops, and for the closed tour
  the way back to node 0, where every tour of \<open>_solve_tsp\<close> starts (this is the edge that
  \<open>delta\<close> reads for \<open>j = n - 1\<close>).
\<close>

fun path_cost :: "int list list \<Rightarrow> nat list \<Rightarrow> int" where
  "path_cost m [] = 0"
| "path_cost m [x] = 0"
| "path_cost m (x # y # ys) = m ! x ! y + path_cost m (y # ys)"

definition tour_cost :: "int list list \<Rightarrow> nat list \<Rightarrow> int" where
  "tour_cost m path = path_cost m (path @ [0])"

section \<open>Opening hours\<close>

text \<open>String operations of Python used by \<open>parse_opening_hours\<close>.\<close>

fun starts_with :: "ustr \<Rightarrow> ustr \<Rightarrow> bool" where
  "starts_with s [] = True"
| "starts_with [] (p # ps) = False"
| "starts_with (c # cs) (p # ps) = (c = p \<and> starts_with cs ps)"

text \<open>\<open>sub in s\<close> for two strings.\<close>

fun py_in :: "ustr \<Rightarrow> ustr \<Rightarrow> bool" where
  "py_in sub [] = (sub = [])"
| "py_in sub (c # cs) = (starts_with (c # cs) sub \<or> py_in sub cs)"

text \<open>The characters for which \<open>str.isspace\<close> holds; \<open>strip()\<close> and \<open>split()\<close> use them.\<close>

definition is_space :: "nat \<Rightarrow> bool" where
  "is_space c = (c \<in> set [9, 10, 11, 12, 13, 28, 29, 30, 31, 32, 133, 160, 5760,
      8192, 8193, 8194, 8195, 8196, 8197, 8198, 8199, 8200, 8201, 8202,
      8232, 8233, 8239, 8287, 12288])"

definition strip :: "ustr \<Rightarrow> ustr" where
  "strip s = rev (dropWhile is_space (rev (dropWhile is_space s)))"

text \<open>\<open>s.split(sep)\<close> for a separator of one character: the pieces between the separators.\<close>

fun split_on :: "nat \<Rightarrow> ustr \<Rightarrow> ustr list" where
  "split_on sep [] = [[]]"
| "split_on sep (c # cs) =
     (if c = sep then [] # split_on sep cs
      else case split_on sep cs of
             [] \<Rightarrow> [[c]]
           | piece # pieces \<Rightarrow> (c # piece) # pieces)"

text \<open>
  \<open>s.split(maxsplit=1)\<close>: no piece for a blank string; otherwise the first word and, when
  something other than white space follows it, the rest of the string from there on.
\<close>

definition split_maxsplit1 :: "ustr \<Rightarrow> ustr list" where
  "split_maxsplit1 s =
     (let t = dropWhile is_space s
      in if t = [] then []
         else let word = takeWhile (\<lambda>c. \<not> is_space c) t;
                  rest = dropWhile is_space (dropWhile (\<lambda>c. \<not> is_space c) t)
              in if rest = [] then [word] else [word, rest])"

text \<open>\<open>s.split()[0]\<close> for a string that is not blank: its first word.\<close>

definition first_word :: "ustr \<Rightarrow> ustr" where
  "first_word s = takeWhile (\<lambda>c. \<not> is_space c) (dropWhile is_space s)"

text \<open>
  \<open>int(s)\<close> on a string: white space around, an optional sign, then decimal digits, with
  single underscores allowed between digits. Only the ASCII digits are modelled; Python
  also accepts the other Unicode decimal digits.
\<close>

definition is_digit :: "nat \<Rightarrow> bool" where
  "is_digit c = (48 \<le> c \<and> c \<le> 57)"

fun digits_value :: "nat \<Rightarrow> ustr \<Rightarrow> nat option" where
  "digits_value acc [] = Some acc"
| "digits_value acc [c] = (if is_digit c then Some (acc * 10 + (c - 48)) else None)"
| "digits_value acc (c # d # cs) =
     (if is_digit c then
        (if d = 95 then (if cs = [] then None else digits_value (acc * 10 + (c - 48)) cs)
         else digits_value (acc * 10 + (c - 48)) (d # cs))
      else None)"

definition py_int :: "ustr \<Rightarrow> int option" where
  "py_int s =
     (let t = strip s;
          neg = (t \<noteq> [] \<and> hd t = 45);
          body = (if t \<noteq> [] \<and> (hd t = 45 \<or> hd t = 43) then tl t else t)
      in if body = [] then None
         else case digits_value 0 body of
                None \<Rightarrow> None
              | Some v \<Rightarrow> Some (if neg then - int v else int v))"

text \<open>\<open>datetime.date\<close>: year, month and day of a valid calendar date.\<close>

record date =
  year :: nat
  month :: nat
  day :: nat

definition is_leap :: "nat \<Rightarrow> bool" where
  "is_leap y = (y mod 4 = 0 \<and> (y mod 100 \<noteq> 0 \<or> y mod 400 = 0))"

definition days_in_month :: "nat \<Rightarrow> nat \<Rightarrow> nat" where
  "days_in_month y m =
     (if m = 2 then (if is_leap y then 29 else 28)
      else if m \<in> set [4, 6, 9, 11] then 30 else 31)"

definition days_before_year :: "nat \<Rightarrow> nat" where
  "days_before_year y = (y - 1) * 365 + (y - 1) div 4 - (y - 1) div 100 + (y - 1) div 400"

definition days_before_month :: "nat \<Rightarrow> nat \<Rightarrow> nat" where
  "days_before_month y m = sum_list (map (days_in_month y) [1..<m])"

definition toordinal :: "date \<Rightarrow> nat" where
  "toordinal d = days_before_year (year d) + days_before_month (year d) (month d) + day d"

text \<open>\<open>date.weekday()\<close>: Monday is 0 and Sunday is 6.\<close>

definition weekday :: "date \<Rightarrow> nat" where
  "weekday d = (toordinal d + 6) mod 7"

text \<open>\<open>visit_date.strftime('%m/%d')\<close>.\<close>

definition two_digits :: "nat \<Rightarrow> ustr" where
  "two_digits n = [48 + n div 10 mod 10, 48 + n mod 10]"

definition strftime_md :: "date \<Rightarrow> ustr" where
  "strftime_md d = two_digits (month d) @ [47] @ two_digits (day d)"

datatype error = ValueError

text \<open>
  \<open>_parse_partial_date\<close>: \<open>month, day = map(int, date_str.split('/'))\<close> and then
  \<open>datetime(year, month, day).date()\<close>, which raises for a month or a day that the
  calendar does not have.
\<close>

definition parse_partial_date :: "ustr \<Rightarrow> nat \<Rightarrow> error + date" where
  "parse_partial_date date_str y =
     (case map py_int (split_on 47 date_str) of
        [Some m, Some d] \<Rightarrow>
          if 1 \<le> m \<and> m \<le> 12 \<and> 1 \<le> d \<and> d \<le> int (days_in_month y (nat m))
          then Inr \<lparr>year = y, month = nat m, day = nat d\<rparr>
          else Inl ValueError
      | _ \<Rightarrow> Inl ValueError)"

definition date_le :: "date \<Rightarrow> date \<Rightarrow> bool" where
  "date_le a b = ((year a, month a, day a) \<le> (year b, month b, day b))"

text \<open>\<open>_date_in_range\<close>: any exception of the parsing gives \<open>False\<close>.\<close>

definition date_in_range :: "date \<Rightarrow> ustr \<Rightarrow> ustr \<Rightarrow> bool" where
  "date_in_range d start_str end_str =
     (case parse_partial_date start_str (year d) of
        Inl e \<Rightarrow> False
      | Inr start \<Rightarrow>
          (case parse_partial_date end_str (year d) of
             Inl e \<Rightarrow> False
           | Inr end \<Rightarrow> date_le start d \<and> date_le d end))"

definition is_holiday :: "date \<Rightarrow> bool" where
  "is_holiday d = ((month d, day d) \<in> set [(1, 1), (5, 1), (10, 1)])"

definition all_day_marker :: ustr where "all_day_marker = [20840, 22825, 24320, 25918]"
definition not_open_marker :: ustr where "not_open_marker = [19981, 24320, 25918]"
definition closed_marker :: ustr where "closed_marker = [38381, 39302]"

text \<open>The seven weekday names of the source, Monday to Sunday, with the value of
  \<open>weekday\<close> each one asks for.\<close>

definition weekday_names :: "(ustr \<times> nat) list" where
  "weekday_names =
     [([21608, 19968], 0), ([21608, 20108], 1), ([21608, 19977], 2), ([21608, 22235], 3),
      ([21608, 20116], 4), ([21608, 20845], 5), ([21608, 26085], 6)]"

definition holiday_names :: "ustr list" where
  "holiday_names =
     [[20803, 26086, 33410], [26149, 33410], [28165, 26126, 33410], [21171, 21160, 33410],
      [31471, 21320, 33410], [20013, 31179, 33410], [22269, 24198, 33410]]"

text \<open>
  One turn of \<open>for rule in rules\<close>: \<open>Inr True\<close> is \<open>return True\<close>, \<open>Inr False\<close> goes on to
  the next rule (\<open>continue\<close>, or a rule that does not apply), and \<open>Inl ValueError\<close> is
  the exception of a tuple assignment that does not get two values.
\<close>

definition rule_matches :: "date \<Rightarrow> ustr \<Rightarrow> error + bool" where
  "rule_matches visit_date rule =
     (if 45 \<in> set (first_word rule) then
        (case split_maxsplit1 rule of
           [date_part, time_part] \<Rightarrow>
             (case split_on 45 date_part of
                [start_date, end_date] \<Rightarrow>
                  if date_in_range visit_date start_date end_date then
                    (if list_ex (\<lambda>(nm, wd). py_in nm time_part \<and> weekday visit_date \<noteq> wd)
                          weekday_names
                     then Inr False
                     else if list_ex (\<lambda>h. py_in h time_part) holiday_names
                             \<and> \<not> is_holiday visit_date
                     then Inr False
                     else Inr True)
                  else Inr False
              | _ \<Rightarrow> Inl ValueError)
         | _ \<Rightarrow> Inl ValueError)
      else Inr False)"

fun any_rule_matches :: "date \<Rightarrow> ustr list \<Rightarrow> error + bool" where
  "any_rule_matches visit_date [] = Inr False"
| "any_rule_matches visit_date (rule # rules) =
     (case rule_matches visit_date rule of
        Inl e \<Rightarrow> Inl e
      | Inr True \<Rightarrow> Inr True
      | Inr False \<Rightarrow> any_rule_matches visit_date rules)"

text \<open>
  \<open>parse_opening_hours\<close>. The cell of the table is \<open>None\<close> when it is missing
  (\<open>pd.isna\<close>). The \<open>lru_cache\<close> only stores results of this pure function.
\<close>

definition parse_opening_hours :: "ustr option \<Rightarrow> date option \<Rightarrow> error + bool" where
  "parse_opening_hours opening_hours_cell visit_date =
     (case opening_hours_cell of
        None \<Rightarrow> Inr True
      | Some opening_hours_str \<Rightarrow>
          if opening_hours_str = [] then Inr True
          else if py_in all_day_marker opening_hours_str then Inr True
          else if py_in not_open_marker opening_hours_str \<or> py_in closed_marker opening_hours_str
          then
            (if (case visit_date of
                   None \<Rightarrow> False
                 | Some d \<Rightarrow> py_in (strftime_md d) opening_hours_str)
             then Inr False
             else Inr (\<not> py_in not_open_marker opening_hours_str))
          else
            (case visit_date of
               None \<Rightarrow> Inr True
             | Some d \<Rightarrow>
                 let rules = filter (\<lambda>r. r \<noteq> []) (map strip (split_on 59 opening_hours_str))
                 in (case any_rule_matches d rules of
                       Inl e \<Rightarrow> Inl e
                     | Inr True \<Rightarrow> Inr True
                     | Inr False \<Rightarrow>
                         if py_in (strftime_md d) opening_hours_str then Inr True
                         else Inr True)))"

section \<open>Knowledge graph and attraction table\<close>

text \<open>
  The graph of \<open>networkx\<close>, as far as the recommender reads it: the nodes in their order,
  each with its identifier and the attributes \<open>type\<close>, \<open>name\<close>, \<open>address\<close> and
  \<open>opening_hours\<close> (\<open>None\<close> where the attribute is absent), and the directed edges with
  their \<open>relation\<close>.
\<close>

record kg_node =
  node_id :: ustr
  node_type :: "ustr option"
  node_name :: "ustr option"
  node_address :: "ustr option"
  node_opening_hours :: "ustr option"

record kg_edge =
  edge_source :: ustr
  edge_target :: ustr
  edge_relation :: "ustr option"

text \<open>
  The rating cell of a row of the table: absent or one of \<open>None\<close> and the two strings
  that say that there is no rating; a number (or a string that \<open>float\<close> reads as that number); the float
  NaN, which is what \<open>pandas\<close> stores for an empty cell; or a value on which \<open>float\<close>
  raises.
\<close>

datatype rating_cell = NoRating | RatingValue rat | RatingNaN | RatingUnreadable

text \<open>
  A row of \<open>attractions_dict\<close>. \<open>csv_comments\<close> is the comment-count cell when it holds a
  string, \<open>csv_enhanced_address\<close> and \<open>csv_opening_hours\<close> are \<open>None\<close> when the key is
  absent.
\<close>

record csv_row =
  csv_rating :: rating_cell
  csv_comments :: "ustr option"
  csv_enhanced_address :: "ustr option"
  csv_opening_hours :: "ustr option option"

text \<open>
  The state of a \<open>TourismRecommender\<close>. \<open>attractions_df\<close> is the data frame, as the rows
  (name, \<open>opening_hours\<close>) in order; a frame without these columns raises on every
  lookup, as the empty list does. \<open>areas\<close> is the set \<open>self.areas\<close> in the order in which
  it is iterated. \<open>math_log1p\<close> stands for the floating-point function \<open>math.log1p\<close> on
  the counts it is applied to.
\<close>

record recommender =
  kg_nodes :: "kg_node list"
  kg_edges :: "kg_edge list"
  attractions_dict :: "(ustr \<times> csv_row) list"
  attractions_df :: "(ustr \<times> ustr option) list"
  areas :: "ustr list"
  math_log1p :: "nat \<Rightarrow> rat"

definition type_attraction :: ustr where
  "type_attraction = [65, 116, 116, 114, 97, 99, 116, 105, 111, 110]"

definition prefix_attraction :: ustr where
  "prefix_attraction = [65, 116, 116, 114, 97, 99, 116, 105, 111, 110, 95]"

definition rel_has_theme :: ustr where
  "rel_has_theme = [72, 65, 83, 95, 84, 72, 69, 77, 69]"

definition rel_suitable_for :: ustr where
  "rel_suitable_for = [83, 85, 73, 84, 65, 66, 76, 69, 95, 70, 79, 82]"

definition theme_snow :: ustr where "theme_snow = [20912, 38634]"
definition theme_flowers :: ustr where "theme_flowers = [36175, 33457]"

text \<open>\<open>check_opening_status\<close>: the first row of the frame with the name; any exception
  (no such row, or one raised by the parser) gives \<open>True\<close>.\<close>

definition check_opening_status :: "recommender \<Rightarrow> ustr \<Rightarrow> date option \<Rightarrow> bool" where
  "check_opening_status R attraction_name visit_date =
     (case find (\<lambda>row. fst row = attraction_name) (attractions_df R) of
        None \<Rightarrow> True
      | Some record \<Rightarrow>
          (case parse_opening_hours (snd record) visit_date of
             Inl e \<Rightarrow> True
           | Inr b \<Rightarrow> b))"

definition get_attractions :: "recommender \<Rightarrow> ustr list" where
  "get_attractions R =
     map node_id (filter (\<lambda>n. node_type n = Some type_attraction) (kg_nodes R))"

text \<open>\<open>n.split('_')[-1]\<close> for the target of every edge of the node with the relation.\<close>

definition get_related_attributes :: "recommender \<Rightarrow> ustr \<Rightarrow> ustr \<Rightarrow> ustr list" where
  "get_related_attributes R node relation =
     map (\<lambda>e. last (split_on 95 (edge_target e)))
       (filter (\<lambda>e. edge_source e = node \<and> edge_relation e = Some relation) (kg_edges R))"

text \<open>\<open>self.kg.degree(node)\<close>: the edges into and out of the node.\<close>

definition degree :: "recommender \<Rightarrow> ustr \<Rightarrow> nat" where
  "degree R node =
     length (filter (\<lambda>e. edge_source e = node) (kg_edges R)) +
     length (filter (\<lambda>e. edge_target e = node) (kg_edges R))"

text \<open>\<open>s.replace(sub, '')\<close> for a non-empty \<open>sub\<close>; \<open>skip\<close> counts the characters of a
  match that are still to be dropped.\<close>

fun remove_all :: "ustr \<Rightarrow> nat \<Rightarrow> ustr \<Rightarrow> ustr" where
  "remove_all sub skip [] = []"
| "remove_all sub (Suc k) (c # cs) = remove_all sub k cs"
| "remove_all sub 0 (c # cs) =
     (if starts_with (c # cs) sub then remove_all sub (length sub - 1) cs
      else c # remove_all sub 0 cs)"

text \<open>\<open>int(re.sub(r'[^\d]', '', s))\<close>, with 0 for the exception on a string without
  digits. Only the ASCII digits are modelled.\<close>

definition parse_comment_count :: "ustr \<Rightarrow> nat" where
  "parse_comment_count s = foldl (\<lambda>acc c. acc * 10 + (c - 48)) 0 (filter is_digit s)"

text \<open>The dictionary that \<open>get_attraction_info\<close> returns. The rating is a float in the
  source and a rational number here.\<close>

record attraction_record =
  info_name :: ustr
  info_rating :: rat
  info_comment_count :: nat
  info_address :: ustr
  info_opening_hours :: "ustr option"

definition empty_row :: csv_row where
  "empty_row = \<lparr>csv_rating = NoRating, csv_comments = None, csv_enhanced_address = None,
                csv_opening_hours = None\<rparr>"

definition get_attraction_info :: "recommender \<Rightarrow> ustr \<Rightarrow> attraction_record" where
  "get_attraction_info R node =
     (let info = find (\<lambda>n. node_id n = node) (kg_nodes R);
          attr = (\<lambda>f. case info of None \<Rightarrow> None | Some n \<Rightarrow> f n);
          name = (case attr node_name of
                    Some nm \<Rightarrow> nm
                  | None \<Rightarrow> remove_all prefix_attraction 0 node);
          csv_data = (case map_of (attractions_dict R) name of
                        Some row \<Rightarrow> row
                      | None \<Rightarrow> empty_row);
          comment_count = (case csv_comments csv_data of
                             Some s \<Rightarrow> parse_comment_count s
                           | None \<Rightarrow> 0);
          rating =
            (case csv_rating csv_data of
               NoRating \<Rightarrow>
                 let theme_count = length (get_related_attributes R node rel_has_theme);
                     audience_count = length (get_related_attributes R node rel_suitable_for);
                     popularity = degree R node;
                     r = 70 + 10 * math_log1p R theme_count
                            + 8 * math_log1p R audience_count
                            + 5 * math_log1p R popularity
                 in min 95 (max 60 r) / 20
             | RatingValue v \<Rightarrow> min 5 (max 1 v)
             | RatingNaN \<Rightarrow> min 5 1
             | RatingUnreadable \<Rightarrow> 7 / 2)
      in \<lparr>info_name = name,
          info_rating = rating,
          info_comment_count = comment_count,
          info_address = (case attr node_address of
                            Some a \<Rightarrow> a
                          | None \<Rightarrow> (case csv_enhanced_address csv_data of
                                       Some a \<Rightarrow> a | None \<Rightarrow> [])),
          info_opening_hours = (case csv_opening_hours csv_data of
                                  Some c \<Rightarrow> c
                                | None \<Rightarrow> (case attr node_opening_hours of
                                             Some h \<Rightarrow> Some h | None \<Rightarrow> Some []))\<rparr>)"

definition extract_area_from_address :: "recommender \<Rightarrow> ustr \<Rightarrow> ustr" where
  "extract_area_from_address R addr =
     (case find (\<lambda>a. py_in a addr) (areas R) of Some a \<Rightarrow> a | None \<Rightarrow> area_unknown)"

section \<open>Scoring and ranking: \<open>recommend\<close>\<close>

text \<open>
  Floats are modelled by rational numbers. \<open>round(x, 1)\<close> rounds to one decimal, a tie
  going to the even digit.
\<close>

definition py_round1 :: "rat \<Rightarrow> rat" where
  "py_round1 x =
     (let y = x * 10; f = \<lfloor>y\<rfloor>; r = y - of_int f
      in (if r < 1 / 2 then of_int f
          else if 1 / 2 < r then of_int f + 1
          else if even f then of_int f else of_int f + 1) / 10)"

text \<open>\<open>1.0 if not requested else len(set(requested) & set(attrs)) / len(requested)\<close>,
  the factor of the theme score and of the audience score.\<close>

definition match_ratio :: "ustr list \<Rightarrow> ustr list \<Rightarrow> rat" where
  "match_ratio requested attrs =
     (if requested = [] then 1
      else of_nat (card (set requested \<inter> set attrs)) / of_nat (length requested))"

definition comment_intervals :: "(nat \<times> nat option \<times> rat) list" where
  "comment_intervals =
     [(0, Some 50, 1), (50, Some 200, 2), (200, Some 1000, 4), (1000, Some 5000, 6),
      (5000, None, 8)]"

definition comment_bonus :: "nat \<Rightarrow> rat" where
  "comment_bonus c =
     (case find (\<lambda>(min_c, max_c, bonus).
                   min_c \<le> c \<and> (case max_c of None \<Rightarrow> True | Some m \<Rightarrow> c < m))
             comment_intervals of
        Some (min_c, max_c, bonus) \<Rightarrow> bonus
      | None \<Rightarrow> 0)"

definition area_score :: "recommender \<Rightarrow> ustr list \<Rightarrow> ustr \<Rightarrow> rat" where
  "area_score R target_areas addr =
     (let area = extract_area_from_address R addr
      in if target_areas = [] then 20
         else if area \<in> set target_areas then 20
         else if area \<in> set (get_adjacent_areas (hd target_areas)) then 14
         else 8)"

definition seasonal_bonus :: "ustr list \<Rightarrow> date list option \<Rightarrow> rat" where
  "seasonal_bonus themes_attr date_range =
     (case date_range of
        Some (d # ds) \<Rightarrow>
          if theme_snow \<in> set themes_attr \<and> month d \<in> set [12, 1, 2] then 2
          else if theme_flowers \<in> set themes_attr \<and> month d \<in> set [3, 4] then 1
          else 0
      | _ \<Rightarrow> 0)"

text \<open>\<open>open_days = sum(self.check_opening_status(info['name'], date) for date in
  date_range)\<close> and \<open>open_ratio = open_days / len(date_range) if open_days > 0 else 0\<close>.\<close>

definition open_days :: "recommender \<Rightarrow> ustr \<Rightarrow> date list \<Rightarrow> nat" where
  "open_days R nm date_range =
     length (filter (\<lambda>d. check_opening_status R nm (Some d)) date_range)"

definition open_ratio :: "recommender \<Rightarrow> ustr \<Rightarrow> date list \<Rightarrow> rat" where
  "open_ratio R nm date_range =
     (if 0 < open_days R nm date_range
      then of_nat (open_days R nm date_range) / of_nat (length date_range) else 0)"

text \<open>The opening penalty; \<open>None\<close> is the \<open>continue\<close> that drops the attraction.\<close>

definition open_penalty :: "recommender \<Rightarrow> ustr \<Rightarrow> date list option \<Rightarrow> rat option" where
  "open_penalty R nm date_range =
     (case date_range of
        None \<Rightarrow> Some 0
      | Some dr \<Rightarrow>
          if dr = [] then Some 0
          else if open_ratio R nm dr \<le> 0 then None
          else if open_ratio R nm dr < 8 / 10 then Some (5 - 5 * open_ratio R nm dr)
          else Some 0)"

text \<open>The six terms that are added, before the penalty is subtracted.\<close>

definition bonus_total ::
  "recommender \<Rightarrow> ustr list \<Rightarrow> ustr list \<Rightarrow> ustr list \<Rightarrow> date list option \<Rightarrow> ustr \<Rightarrow> rat" where
  "bonus_total R themes audiences target_areas date_range attraction =
     (let info = get_attraction_info R attraction;
          themes_attr = get_related_attributes R attraction rel_has_theme;
          audiences_attr = get_related_attributes R attraction rel_suitable_for;
          theme_score = 30 * match_ratio themes themes_attr;
          audience_score = 25 * match_ratio audiences audiences_attr;
          base_rating_score = 10 * (info_rating info / 5)
      in theme_score + audience_score + area_score R target_areas (info_address info)
         + base_rating_score + comment_bonus (info_comment_count info)
         + seasonal_bonus themes_attr date_range)"

definition raw_score ::
  "recommender \<Rightarrow> ustr list \<Rightarrow> ustr list \<Rightarrow> ustr list \<Rightarrow> date list option \<Rightarrow> ustr
     \<Rightarrow> rat option" where
  "raw_score R themes audiences target_areas date_range attraction =
     (case open_penalty R (info_name (get_attraction_info R attraction)) date_range of
        None \<Rightarrow> None
      | Some pen \<Rightarrow>
          Some (bonus_total R themes audiences target_areas date_range attraction - pen))"

definition final_score :: "rat \<Rightarrow> rat" where
  "final_score raw = min 5 (max 1 (py_round1 (1 + 4 * (raw / 100))))"

type_synonym candidate = "ustr \<times> rat \<times> attraction_record"

text \<open>The body of \<open>for attraction in self.get_attractions()\<close>.\<close>

definition score_candidate ::
  "recommender \<Rightarrow> ustr list \<Rightarrow> ustr list \<Rightarrow> ustr list \<Rightarrow> date list option \<Rightarrow> ustr
     \<Rightarrow> candidate option" where
  "score_candidate R themes audiences target_areas date_range attraction =
     (case raw_score R themes audiences target_areas date_range attraction of
        None \<Rightarrow> None
      | Some raw \<Rightarrow> Some (attraction, final_score raw, get_attraction_info R attraction))"

definition target_areas_of :: "ustr option \<Rightarrow> ustr list" where
  "target_areas_of target_area =
     (case target_area of None \<Rightarrow> [] | Some a \<Rightarrow> if a = [] then [] else [a])"

definition candidates ::
  "recommender \<Rightarrow> ustr list \<Rightarrow> ustr list \<Rightarrow> ustr option \<Rightarrow> date list option
     \<Rightarrow> candidate list" where
  "candidates R themes audiences target_area date_range =
     List.map_filter
       (score_candidate R themes audiences (target_areas_of target_area) date_range)
       (get_attractions R)"

text \<open>The sort key \<open>(-x[1], -x[2]['comment_count'])\<close>; tuples are compared
  lexicographically, and \<open>list.sort\<close> is stable, as \<open>sort_key\<close> is.\<close>

definition rank_key :: "candidate \<Rightarrow> rat \<times> int" where
  "rank_key x = (- fst (snd x), - int (info_comment_count (snd (snd x))))"

text \<open>\<open>xs[:top_n]\<close>, for \<open>top_n\<close> an integer or \<open>None\<close>.\<close>

definition py_slice_to :: "int option \<Rightarrow> 'a list \<Rightarrow> 'a list" where
  "py_slice_to top_n xs =
     (case top_n of
        None \<Rightarrow> xs
      | Some n \<Rightarrow> if 0 \<le> n then take (nat n) xs else take (length xs - nat (- n)) xs)"

text \<open>
  \<open>recommend\<close>. The inner \<open>max(...)\<close> of \<open>max_comments\<close> raises \<open>ValueError\<close> on an empty
  \<open>attractions_dict\<close>; its value is not used afterwards.
\<close>

definition recommend ::
  "recommender \<Rightarrow> ustr list \<Rightarrow> ustr list \<Rightarrow> ustr option \<Rightarrow> date list option \<Rightarrow> int option
     \<Rightarrow> error + candidate list" where
  "recommend R themes audiences target_area date_range top_n =
     (if attractions_dict R = [] then Inl ValueError
      else Inr (py_slice_to top_n
                  (sort_key rank_key (candidates R themes audiences target_area date_range))))"


section \<open>Notions used in the statements\<close>

text \<open>
  A cost matrix is square when every row is as long as the matrix, and symmetric when
  the cost from \<open>a\<close> to \<open>b\<close> is the cost from \<open>b\<close> to \<open>a\<close> for all nodes below \<open>n\<close>.
  A tour of \<open>n\<close> nodes is a permutation of \<open>0, ..., n - 1\<close> that starts at node 0.
\<close>

definition symmetric_on :: "int list list \<Rightarrow> nat \<Rightarrow> bool" where
  "symmetric_on m n = (\<forall>a < n. \<forall>b < n. m ! a ! b = m ! b ! a)"

definition tour :: "nat \<Rightarrow> nat list \<Rightarrow> bool" where
  "tour n p = (mset p = mset [0..<n] \<and> hd p = 0)"

definition square :: "int list list \<Rightarrow> bool" where
  "square m = list_all (\<lambda>row. length row = length m) m"

text \<open>Bookkeeping for the proofs: the table after the loop of \<open>_preprocess_data\<close>, written out,
  and the relation between the states of a 2-opt sweep.\<close>

definition travel_times_full :: "((ustr \<times> ustr) \<times> int) list" where
  "travel_times_full =
    [((area_fengxian, area_peixian), 30), ((area_xinyi, area_pizhou), 45),
     ((area_pizhou, area_jiawang), 50), ((area_suining, area_tongshan), 60),
     ((area_jiawang, area_gulou), 40), ((area_tongshan, area_quanshan), 25),
     ((area_gulou, area_yunlong), 15), ((area_quanshan, area_yunlong), 20)] @ travel_times_literal"

definition sweep_rel :: "int list list \<Rightarrow> nat \<Rightarrow> nat list \<times> bool \<Rightarrow> nat list \<times> bool \<Rightarrow> bool" where
  "sweep_rel m n st st' =
     (tour n (fst st') \<and> tour_cost m (fst st') \<le> tour_cost m (fst st)
      \<and> (snd st \<longrightarrow> snd st')
      \<and> (snd st' \<and> \<not> snd st \<longrightarrow> tour_cost m (fst st') < tour_cost m (fst st))
      \<and> (\<not> snd st' \<longrightarrow> fst st' = fst st))"

definition cheaper_tours :: "int list list \<Rightarrow> nat \<Rightarrow> nat list \<Rightarrow> nat list set" where
  "cheaper_tours m n p = {q. tour n q \<and> tour_cost m q < tour_cost m p}"



definition example_stop :: "ustr \<Rightarrow> ustr \<Rightarrow> attraction_info" where
  "example_stop nm ar =
     \<lparr>name = nm, address = ar, opening_hours = None, theme_names = [], description = [],
      score = 4, area = ar, comment_count = 0\<rparr>"


definition example_date :: date where
  "example_date = \<lparr>year = 2024, month = 7, day = 15\<rparr>"

definition new_year_date :: date where
  "new_year_date = \<lparr>year = 2024, month = 1, day = 1\<rparr>"

text \<open>The string \<open>"03/01-05/31 08:00-17:00"\<close>.\<close>

definition spring_rule :: ustr where
  "spring_rule = [48, 51, 47, 48, 49, 45, 48, 53, 47, 51, 49, 32,
                  48, 56, 58, 48, 48, 45, 49, 55, 58, 48, 48]"

text \<open>The string \<open>"01/01"\<close> followed by the closed marker.\<close>

definition new_year_closed :: ustr where
  "new_year_closed = [48, 49, 47, 48, 49] @ closed_marker"

text \<open>The example recommender: six attractions \<open>A\<close> to \<open>F\<close>. \<open>A\<close> has the rating 4.5 and the comment count
  \<open>"10000000"\<close> and is never open; \<open>B\<close> has an empty rating cell and is closed on 01/01;
  the others have no row in the table.\<close>

definition example_node :: "nat \<Rightarrow> kg_node" where
  "example_node c =
     \<lparr>node_id = prefix_attraction @ [c], node_type = Some type_attraction, node_name = None,
      node_address = None, node_opening_hours = None\<rparr>"

definition example_recommender :: recommender where
  "example_recommender =
     \<lparr>kg_nodes = map example_node [65, 66, 67, 68, 69, 70],
      kg_edges = [],
      attractions_dict =
        [([65], \<lparr>csv_rating = RatingValue (9 / 2),
                 csv_comments = Some [49, 48, 48, 48, 48, 48, 48, 48],
                 csv_enhanced_address = None, csv_opening_hours = None\<rparr>),
         ([66], \<lparr>csv_rating = RatingNaN, csv_comments = None,
                 csv_enhanced_address = None, csv_opening_hours = None\<rparr>)],
      attractions_df = [([65], Some not_open_marker), ([66], Some new_year_closed)],
      areas = [],
      math_log1p = of_nat\<rparr>"

definition example_range :: "date list" where
  "example_range =
     [\<lparr>year = 2023, month = 12, day = 31\<rparr>, \<lparr>year = 2024, month = 1, day = 1\<rparr>,
      \<lparr>year = 2024, month = 1, day = 2\<rparr>]"

definition example_candidate :: "nat \<Rightarrow> rat \<Rightarrow> rat \<Rightarrow> nat \<Rightarrow> candidate" where
  "example_candidate c s r n =
     (prefix_attraction @ [c], s,
      \<lparr>info_name = [c], info_rating = r, info_comment_count = n,
       info_address = [], info_opening_hours = Some []\<rparr>)"

section \<open>Symmetry of the travel-time lookup\<close>

lemma travel_times_unfold: "travel_times = map_of travel_times_full"
  by (simp add: travel_times_def make_bidirectional_def travel_times_literal_def travel_times_full_def)

lemma map_of_swap_closed:
  assumes d: "distinct (map fst L)"
    and c: "\<forall>p \<in> set L. ((snd (fst p), fst (fst p)), snd p) \<in> set L"
  shows "map_of L (a, b) = map_of L (b, a)"
proof -
  have imp: "map_of L (y, x) = Some t" if "map_of L (x, y) = Some t" for x y t
  proof -
    from that have "((x, y), t) \<in> set L" by (rule map_of_SomeD)
    with c have "((y, x), t) \<in> set L" by force
    with d show ?thesis by simp
  qed
  show ?thesis
  proof (cases "map_of L (a, b)")
    case None
    show ?thesis
    proof (cases "map_of L (b, a)")
      case None
      with \<open>map_of L (a, b) = None\<close> show ?thesis by simp
    next
      case (Some t)
      from imp[OF Some] None show ?thesis by simp
    qed
  next
    case (Some t)
    from imp[OF Some] Some show ?thesis by simp
  qed
qed

lemma travel_times_full_distinct: "distinct (map fst travel_times_full)"
  by (simp add: travel_times_full_def travel_times_literal_def area_defs)

lemma travel_times_full_closed:
  "\<forall>p \<in> set travel_times_full. ((snd (fst p), fst (fst p)), snd p) \<in> set travel_times_full"
  by (simp add: travel_times_full_def travel_times_literal_def)

lemma travel_times_sym: "travel_times (a, b) = travel_times (b, a)"
  unfolding travel_times_unfold
  by (rule map_of_swap_closed[OF travel_times_full_distinct travel_times_full_closed])

text \<open>
  Claim C8. The travel-time lookup is symmetric: for all areas \<open>a\<close> and \<open>b\<close>,
  \<open>get_travel_time a b\<close> and \<open>get_travel_time b a\<close> are equal; the table holds the same
  entry (or none) for \<open>(a, b)\<close> and \<open>(b, a)\<close>; an area to itself takes 0; and what the
  lookup returns for \<open>(a, b)\<close> is the table's entry for \<open>(b, a)\<close>, or 90 where there is none.
\<close>

theorem get_travel_time_symmetric:
  "get_travel_time a b = get_travel_time b a
   \<and> travel_times (a, b) = travel_times (b, a)
   \<and> get_travel_time a a = 0
   \<and> get_travel_time a b =
       (if a = b then 0 else case travel_times (b, a) of Some t \<Rightarrow> t | None \<Rightarrow> 90)"
proof -
  have "travel_times (a, b) = travel_times (b, a)" by (rule travel_times_sym)
  then show ?thesis by (auto simp: get_travel_time_def)
qed

section \<open>Round-robin day groups\<close>

lemma assign_day_length: "length (assign_day n daily p) = length daily"
  by (simp add: assign_day_def Let_def)

lemma foldl_assign_day_length:
  "length (foldl (assign_day n) daily ps) = length daily"
  by (induction ps arbitrary: daily) (simp_all add: assign_day_length)

lemma daily_attractions_snoc:
  "daily_attractions dr (xs @ [x]) =
     assign_day (length dr) (daily_attractions dr xs) (length xs, x)"
  by (simp add: daily_attractions_def enumerate_append_eq)

lemma daily_attractions_length: "length (daily_attractions dr xs) = length dr"
  by (simp add: daily_attractions_def foldl_assign_day_length)

lemma daily_attractions_nth:
  assumes "d < length dr"
  shows "daily_attractions dr xs ! d =
           map (\<lambda>i. xs ! i) (filter (\<lambda>i. i mod length dr = d) [0..<length xs])"
proof (induction xs rule: rev_induct)
  case Nil
  from assms show ?case by (simp add: daily_attractions_def)
next
  case (snoc x xs)
  have len: "length (daily_attractions dr xs) = length dr" by (rule daily_attractions_length)
  have m: "map (\<lambda>i. (xs @ [x]) ! i) (filter P [0..<length xs]) = map (\<lambda>i. xs ! i) (filter P [0..<length xs])" for P
    by (rule map_cong) (auto simp: nth_append)
  show ?case
  proof (cases "length xs mod length dr = d")
    case True
    with assms len snoc m show ?thesis
      by (simp add: daily_attractions_snoc assign_day_def Let_def)
  next
    case False
    with assms len snoc m show ?thesis
      by (simp add: daily_attractions_snoc assign_day_def Let_def)
  qed
qed

text \<open>
  Claim C9. For a non-empty date range, \<open>generate_travel_plan\<close> makes exactly one
  group per date, and the group of day \<open>d\<close> is the attractions at the positions \<open>i\<close>
  with \<open>i mod len(date_range) = d\<close>, in route order; so attraction \<open>i\<close> is in the group
  of day \<open>i mod len(date_range)\<close>.
\<close>

theorem daily_attractions_round_robin:
  assumes "date_range \<noteq> []"
  shows "length (daily_attractions date_range attractions_info) = length date_range
    \<and> (\<forall>d < length date_range.
          daily_attractions date_range attractions_info ! d =
            map (\<lambda>i. attractions_info ! i)
              (filter (\<lambda>i. i mod length date_range = d) [0..<length attractions_info]))
    \<and> (\<forall>i < length attractions_info.
          attractions_info ! i \<in> set (daily_attractions date_range attractions_info ! (i mod length date_range)))"
proof -
  have n: "0 < length date_range" using assms by simp
  have a: "\<forall>d < length date_range.
          daily_attractions date_range attractions_info ! d =
            map (\<lambda>i. attractions_info ! i)
              (filter (\<lambda>i. i mod length date_range = d) [0..<length attractions_info])"
    by (simp add: daily_attractions_nth)
  have "attractions_info ! i \<in> set (daily_attractions date_range attractions_info ! (i mod length date_range))"
    if "i < length attractions_info" for i
  proof -
    have "i mod length date_range < length date_range" using n by simp
    then show ?thesis using that by (simp add: daily_attractions_nth)
  qed
  with a show ?thesis by (simp add: daily_attractions_length)
qed

theorem daily_attractions_round_robin_witness:
  "[1::nat, 2, 3] \<noteq> [] \<and> daily_attractions [1::nat, 2, 3] [10::nat, 11, 12, 13, 14]
      = [[10, 13], [11, 14], [12]]"
  using daily_attractions_round_robin[of "[1::nat, 2, 3]" "[10::nat, 11, 12, 13, 14]"]
  by (simp add: daily_attractions_def assign_day_def enumerate_eq_zip upt_rec)

section \<open>The route optimizer\<close>

declare nearest_neighbor.simps [simp del]

lemma nearest_neighbor_mset:
  "mset (nearest_neighbor m path unvisited) = mset path + mset unvisited"
proof (induction m path unvisited rule: nearest_neighbor.induct)
  case (1 m path unvisited)
  show ?case
  proof (cases "unvisited = []")
    case True
    then show ?thesis by (simp add: nearest_neighbor.simps)
  next
    case False
    define nx where "nx = py_min_key (\<lambda>x. m ! last path ! x) (hd unvisited) (tl unvisited)"
    have "nx \<in> set (hd unvisited # tl unvisited)" unfolding nx_def by (rule py_min_key_in)
    with False have mem: "nx \<in> set unvisited" by simp
    have step: "nearest_neighbor m path unvisited =
        nearest_neighbor m (path @ [nx]) (remove1 nx unvisited)"
      using False by (subst nearest_neighbor.simps) (simp add: Let_def nx_def)
    have "mset (nearest_neighbor m (path @ [nx]) (remove1 nx unvisited)) =
        mset (path @ [nx]) + mset (remove1 nx unvisited)"
      using "1.IH"[OF False refl] nx_def by simp
    with mem step show ?thesis by simp
  qed
qed

lemma nearest_neighbor_prefix:
  "\<exists>ys. nearest_neighbor m path unvisited = path @ ys"
proof (induction m path unvisited rule: nearest_neighbor.induct)
  case (1 m path unvisited)
  show ?case
  proof (cases "unvisited = []")
    case True
    then show ?thesis by (simp add: nearest_neighbor.simps)
  next
    case False
    define nx where "nx = py_min_key (\<lambda>x. m ! last path ! x) (hd unvisited) (tl unvisited)"
    have step: "nearest_neighbor m path unvisited =
        nearest_neighbor m (path @ [nx]) (remove1 nx unvisited)"
      using False by (subst nearest_neighbor.simps) (simp add: Let_def nx_def)
    have "\<exists>ys. nearest_neighbor m (path @ [nx]) (remove1 nx unvisited) = (path @ [nx]) @ ys"
      using "1.IH"[OF False refl] nx_def by simp
    with step show ?thesis by auto
  qed
qed

lemma path_cost_Cons:
  "path_cost m (x # xs) = (if xs = [] then 0 else m ! x ! hd xs + path_cost m xs)"
  by (cases xs) simp_all

lemma path_cost_append:
  "path_cost m (xs @ ys) =
     path_cost m xs + (if xs = [] \<or> ys = [] then 0 else m ! last xs ! hd ys) + path_cost m ys"
proof (induction xs)
  case Nil
  show ?case by simp
next
  case (Cons x xs)
  then show ?case
    by (cases xs; cases ys) (simp_all add: path_cost_Cons)
qed

lemma path_cost_rev:
  assumes "symmetric_on m n" and "\<forall>x \<in> set xs. x < n"
  shows "path_cost m (rev xs) = path_cost m xs"
  using assms(2)
proof (induction xs)
  case Nil
  show ?case by simp
next
  case (Cons x xs)
  show ?case
  proof (cases "xs = []")
    case True
    then show ?thesis by simp
  next
    case False
    then have hx: "hd xs \<in> set xs" by simp
    have "m ! hd xs ! x = m ! x ! hd xs"
      using assms(1) Cons.prems hx unfolding symmetric_on_def by simp
    moreover have "path_cost m (rev xs) = path_cost m xs" using Cons.IH Cons.prems by simp
    ultimately show ?thesis using False
      by (simp add: path_cost_append last_rev path_cost_Cons)
  qed
qed

lemma reverse_segment_mset:
  assumes "i \<le> j"
  shows "mset (reverse_segment p i j) = mset p"
proof -
  have "p = take i p @ take (j + 1 - i) (drop i p) @ drop (j + 1) p"
    using assms by (metis Suc_diff_le Suc_eq_plus1 add.commute append_take_drop_id drop_drop le_add_diff_inverse le_SucI)
  then have "mset p = mset (take i p) + mset (take (j + 1 - i) (drop i p)) + mset (drop (j + 1) p)"
    by (metis mset_append add.assoc)
  then show ?thesis by (simp add: reverse_segment_def)
qed

lemma reverse_segment_hd:
  assumes "1 \<le> i" and "p \<noteq> []"
  shows "hd (reverse_segment p i j) = hd p"
  using assms by (cases p; cases i) (simp_all add: reverse_segment_def)

lemma reverse_segment_cost:
  assumes sym: "symmetric_on m n" and nodes: "\<forall>x \<in> set p. x < n" and len: "length p = n"
    and i: "1 \<le> i" and ij: "i < j" and j: "j < n"
  shows "tour_cost m (reverse_segment p i j) = tour_cost m p + delta m p i j n"
proof -
  define A where "A = take i p"
  define S where "S = take (j + 1 - i) (drop i p)"
  define B where "B = drop (j + 1) p @ [0]"
  have p: "p = A @ S @ drop (j + 1) p"
    unfolding A_def S_def using ij
    by (metis Suc_eq_plus1 add.commute append_take_drop_id drop_drop le_add_diff_inverse less_imp_le_nat le_SucI)
  have Ane: "A \<noteq> []" and Sne: "S \<noteq> []" and Bne: "B \<noteq> []"
    using i ij j len by (auto simp: A_def S_def B_def)
  have lastA: "last A = p ! (i - 1)"
  proof -
    have "A \<noteq> []" and "length A = i" using i ij j len by (auto simp: A_def)
    then have "last A = A ! (i - 1)" by (simp add: last_conv_nth)
    also have "\<dots> = p ! (i - 1)" using i by (simp add: A_def)
    finally show ?thesis .
  qed
  have hdS: "hd S = p ! i"
    using i ij j len by (simp add: S_def hd_conv_nth hd_drop_conv_nth)
  have lastS: "last S = p ! j"
  proof -
    have l: "length S = j + 1 - i" using i ij j len by (simp add: S_def)
    with ij have "S \<noteq> []" by auto
    then have "last S = S ! (j - i)" using l ij by (simp add: last_conv_nth)
    also have "\<dots> = p ! j" using ij j len by (simp add: S_def)
    finally show ?thesis .
  qed
  have hdB: "hd B = succ_node p j n"
    using j len by (simp add: B_def succ_node_def hd_append hd_drop_conv_nth)
  have Snodes: "\<forall>x \<in> set S. x < n"
    using nodes unfolding S_def by (meson in_set_dropD in_set_takeD)
  have revS: "path_cost m (rev S) = path_cost m S"
    by (rule path_cost_rev[OF sym Snodes])
  have nodes': "p ! k < n" if "k < n" for k using nodes len that by simp
  have sA: "m ! (p ! (i - 1)) ! (p ! j) = m ! (p ! (i - 1)) ! (p ! j)" by simp
  have sB: "m ! (p ! i) ! succ_node p j n = m ! succ_node p j n ! (p ! i)"
  proof -
    have "succ_node p j n < n" using j len nodes' by (cases "j + 1 < n") (auto simp: succ_node_def)
    moreover have "p ! i < n" using nodes' ij j by simp
    ultimately show ?thesis using sym unfolding symmetric_on_def by simp
  qed
  have c1: "tour_cost m p = path_cost m (A @ S @ B)"
    unfolding tour_cost_def B_def using p by (metis append.assoc)
  have c2: "tour_cost m (reverse_segment p i j) = path_cost m (A @ rev S @ B)"
    by (simp add: tour_cost_def reverse_segment_def A_def S_def B_def)
  have "path_cost m (A @ rev S @ B) = path_cost m (A @ S @ B) + delta m p i j n"
    using Ane Sne Bne lastA hdS lastS hdB revS sB
    by (simp add: path_cost_append delta_def hd_rev last_rev)
  with c1 c2 show ?thesis by simp
qed

lemma tour_length: "tour n p \<Longrightarrow> length p = n"
  unfolding tour_def by (metis length_upt mset_eq_length minus_nat.diff_0)

lemma tour_nodes: "tour n p \<Longrightarrow> \<forall>x \<in> set p. x < n"
  unfolding tour_def by (metis atLeastLessThan_iff mset_eq_setD set_upt)

lemma two_opt_pairs_bounds:
  "(i, j) \<in> set (two_opt_pairs n) \<Longrightarrow> 1 \<le> i \<and> i < j \<and> j < n"
  by (auto simp: two_opt_pairs_def)

lemma two_opt_step_rel:
  assumes sym: "symmetric_on m n" and t: "tour n (fst st)"
    and b: "1 \<le> fst ij \<and> fst ij < snd ij \<and> snd ij < n"
  shows "sweep_rel m n st (two_opt_step m n st ij)"
proof -
  obtain p imp where st: "st = (p, imp)" by (cases st)
  obtain i j where ij: "ij = (i, j)" by (cases ij)
  from t st have tp: "tour n p" by simp
  from b ij have bi: "1 \<le> i" "i < j" "j < n" by simp_all
  have len: "length p = n" by (rule tour_length[OF tp])
  have nodes: "\<forall>x \<in> set p. x < n" by (rule tour_nodes[OF tp])
  have ne: "p \<noteq> []" using len bi by auto
  have cost: "tour_cost m (reverse_segment p i j) = tour_cost m p + delta m p i j n"
    by (rule reverse_segment_cost[OF sym nodes len bi])
  have "tour n (reverse_segment p i j)"
    using tp bi ne unfolding tour_def
    by (simp add: reverse_segment_mset reverse_segment_hd)
  with tp cost show ?thesis
    by (simp add: sweep_rel_def two_opt_step_def st ij Let_def)
qed

lemma sweep_rel_refl: "tour n (fst st) \<Longrightarrow> sweep_rel m n st st"
  by (simp add: sweep_rel_def)

lemma sweep_rel_trans:
  "sweep_rel m n a b \<Longrightarrow> sweep_rel m n b c \<Longrightarrow> sweep_rel m n a c"
  unfolding sweep_rel_def by (metis less_le_trans le_less_trans order_trans)

lemma foldl_two_opt_step_rel:
  assumes sym: "symmetric_on m n"
    and ps: "\<forall>ij \<in> set ps. 1 \<le> fst ij \<and> fst ij < snd ij \<and> snd ij < n"
    and t: "tour n (fst st)"
  shows "sweep_rel m n st (foldl (two_opt_step m n) st ps)"
  using ps t
proof (induction ps arbitrary: st)
  case Nil
  then show ?case by (simp add: sweep_rel_refl)
next
  case (Cons ij ps)
  have s1: "sweep_rel m n st (two_opt_step m n st ij)"
    using two_opt_step_rel[OF sym Cons.prems(2)] Cons.prems(1) by simp
  then have "tour n (fst (two_opt_step m n st ij))" by (simp add: sweep_rel_def)
  then have "sweep_rel m n (two_opt_step m n st ij) (foldl (two_opt_step m n) (two_opt_step m n st ij) ps)"
    using Cons.IH Cons.prems(1) by simp
  with s1 show ?case using sweep_rel_trans by fastforce
qed

lemma two_opt_sweep_rel:
  assumes "symmetric_on m n" and "tour n p"
  shows "sweep_rel m n (p, False) (two_opt_sweep m n p)"
  unfolding two_opt_sweep_def
  by (rule foldl_two_opt_step_rel) (use assms two_opt_pairs_bounds in auto)

lemma finite_tours: "finite {q. tour n q}"
proof -
  have "{q. tour n q} \<subseteq> {q. set q \<subseteq> {..<n} \<and> length q = n}"
    using tour_length tour_nodes by auto
  moreover have "finite {q. set q \<subseteq> {..<n} \<and> length q = n}"
    by (rule finite_lists_length_eq) simp
  ultimately show ?thesis by (rule finite_subset)
qed

lemma cheaper_tours_card:
  assumes "tour n p'" and "tour_cost m p' < tour_cost m p"
  shows "card (cheaper_tours m n p') < card (cheaper_tours m n p)"
proof (rule psubset_card_mono)
  show "finite (cheaper_tours m n p)"
    unfolding cheaper_tours_def using finite_tours[of n] by simp
  have "p' \<in> cheaper_tours m n p" "p' \<notin> cheaper_tours m n p'"
    using assms by (simp_all add: cheaper_tours_def)
  moreover have "cheaper_tours m n p' \<subseteq> cheaper_tours m n p"
    using assms(2) by (auto simp: cheaper_tours_def)
  ultimately show "cheaper_tours m n p' \<subset> cheaper_tours m n p" by blast
qed

lemma two_opt_loop_terminates:
  assumes sym: "symmetric_on m n" and t: "tour n p"
  shows "\<exists>r. two_opt_loop m n p = Some r \<and> tour n r \<and> tour_cost m r \<le> tour_cost m p
            \<and> two_opt_sweep m n r = (r, False)"
  using t
proof (induction "card (cheaper_tours m n p)" arbitrary: p rule: less_induct)
  case less
  obtain p' imp where sw: "two_opt_sweep m n p = (p', imp)" by (cases "two_opt_sweep m n p")
  have rel: "sweep_rel m n (p, False) (p', imp)"
    using two_opt_sweep_rel[OF sym less.prems] sw by simp
  show ?case
  proof (cases imp)
    case False
    with rel have "p' = p" by (simp add: sweep_rel_def)
    with sw False less.prems show ?thesis
      by (subst two_opt_loop.simps) simp
  next
    case True
    with rel have t': "tour n p'" and c: "tour_cost m p' < tour_cost m p"
      by (simp_all add: sweep_rel_def)
    from less.hyps[OF cheaper_tours_card[OF t' c] t']
    obtain r where "two_opt_loop m n p' = Some r" "tour n r" "tour_cost m r \<le> tour_cost m p'"
      "two_opt_sweep m n r = (r, False)" by blast
    with sw True c show ?thesis
      by (subst two_opt_loop.simps) simp
  qed
qed

lemma nearest_neighbor_tour_tour:
  assumes "1 \<le> n" and "length m = n"
  shows "tour n (nearest_neighbor_tour m)"
proof -
  have "mset (nearest_neighbor_tour m) = mset ([0] @ [1..<n])"
    using assms by (simp add: nearest_neighbor_tour_def nearest_neighbor_mset)
  also have "[0] @ [1..<n] = [0..<n]" using assms by (simp add: upt_rec[of 0])
  finally have a: "mset (nearest_neighbor_tour m) = mset [0..<n]" .
  obtain ys where "nearest_neighbor_tour m = [0] @ ys"
    unfolding nearest_neighbor_tour_def using nearest_neighbor_prefix by blast
  then have "hd (nearest_neighbor_tour m) = 0" by simp
  with a show ?thesis by (simp add: tour_def)
qed


lemma solve_tsp_result:
  assumes sym: "symmetric_on m (length m)"
  shows "\<exists>r. solve_tsp m = Some r
    \<and> (1 \<le> length m \<longrightarrow> tour (length m) r)
    \<and> tour_cost m r \<le> tour_cost m (nearest_neighbor_tour m)
    \<and> two_opt_sweep m (length m) r = (r, False)"
proof (cases "length m \<le> 1")
  case True
  then have "[1..<length m] = []" by simp
  then have nn: "nearest_neighbor_tour m = [0]"
    by (simp add: nearest_neighbor_tour_def nearest_neighbor.simps)
  have pairs: "two_opt_pairs (length m) = []" using True by (simp add: two_opt_pairs_def)
  have "1 \<le> length m \<longrightarrow> tour (length m) [0]"
    using True by (auto simp: tour_def le_Suc_eq)
  with True nn pairs show ?thesis
    by (simp add: solve_tsp_def two_opt_sweep_def)
next
  case False
  then have "1 \<le> length m" by simp
  then have t: "tour (length m) (nearest_neighbor_tour m)"
    by (rule nearest_neighbor_tour_tour) simp
  from two_opt_loop_terminates[OF sym t] False show ?thesis
    by (auto simp: solve_tsp_def Let_def)
qed

lemma get_travel_time_comm: "get_travel_time a b = get_travel_time b a"
  using travel_times_sym[of a b] by (auto simp: get_travel_time_def)

lemma get_actual_travel_time_comm: "get_actual_travel_time a b = get_actual_travel_time b a"
  using get_travel_time_comm[of a b] by (auto simp: get_actual_travel_time_def Let_def)

lemma time_matrix_of_length: "length (time_matrix_of xs) = length xs"
  by (simp add: time_matrix_of_def Let_def)

lemma time_matrix_of_nth:
  "a < length xs \<Longrightarrow> b < length xs \<Longrightarrow>
    time_matrix_of xs ! a ! b = get_actual_travel_time (area (xs ! a)) (area (xs ! b))"
  by (simp add: time_matrix_of_def Let_def)

lemma time_matrix_of_symmetric: "symmetric_on (time_matrix_of xs) (length (time_matrix_of xs))"
  unfolding symmetric_on_def time_matrix_of_length
  by (simp add: time_matrix_of_nth get_actual_travel_time_comm)

lemma time_matrix_of_square: "square (time_matrix_of xs)"
  by (simp add: square_def time_matrix_of_def Let_def list_all_iff)

lemma tour_map_nth:
  assumes "tour (length xs) idx"
  shows "mset (map (\<lambda>i. xs ! i) idx) = mset xs"
proof -
  have "mset (map (\<lambda>i. xs ! i) idx) = image_mset (\<lambda>i. xs ! i) (mset idx)" by simp
  also have "\<dots> = image_mset (\<lambda>i. xs ! i) (mset [0..<length xs])"
    using assms by (simp add: tour_def)
  also have "\<dots> = mset (map (\<lambda>i. xs ! i) [0..<length xs])" by simp
  also have "\<dots> = mset xs" by (simp add: map_nth)
  finally show ?thesis .
qed

lemma optimize_route_result:
  assumes "3 \<le> length xs"
  shows "\<exists>idx. solve_tsp (time_matrix_of xs) = Some idx \<and> tour (length xs) idx
     \<and> optimize_route xs = Some (map (\<lambda>i. xs ! i) idx)"
proof -
  from solve_tsp_result[OF time_matrix_of_symmetric, of xs] assms
  obtain r where "solve_tsp (time_matrix_of xs) = Some r" "tour (length xs) r"
    by (auto simp: time_matrix_of_length)
  with assms show ?thesis by (simp add: optimize_route_def)
qed

text \<open>
  Claim C6. \<open>_optimize_route\<close> returns, for every list of attractions, a permutation of
  that list: the result is the input read at a permutation of its positions, so nothing
  is added, dropped or duplicated. For two attractions or fewer the result is the input
  itself. In particular the 2-opt loop always ends on the matrices the optimizer builds.
\<close>

theorem optimize_route_permutation:
  "\<exists>ys. optimize_route attractions = Some ys
     \<and> mset ys = mset attractions
     \<and> (\<exists>idx. mset idx = mset [0..<length attractions] \<and> ys = map (\<lambda>i. attractions ! i) idx)
     \<and> (length attractions \<le> 2 \<longrightarrow> ys = attractions)"
proof (cases "length attractions \<le> 2")
  case True
  have "attractions = map (\<lambda>i. attractions ! i) [0..<length attractions]"
    by (simp add: map_nth)
  then have "\<exists>idx. mset idx = mset [0..<length attractions]
      \<and> attractions = map (\<lambda>i. attractions ! i) idx" by blast
  with True show ?thesis by (simp add: optimize_route_def)
next
  case False
  then have "3 \<le> length attractions" by simp
  from optimize_route_result[OF this]
  obtain idx where i: "tour (length attractions) idx"
    "optimize_route attractions = Some (map (\<lambda>i. attractions ! i) idx)" by blast
  from i(1) have "mset idx = mset [0..<length attractions]" by (simp add: tour_def)
  with i False tour_map_nth[OF i(1)] show ?thesis by auto
qed

theorem optimize_route_permutation_witness:
  "length [example_stop [65] area_yunlong, example_stop [66] area_xinyi] \<le> 2
   \<and> optimize_route [example_stop [65] area_yunlong, example_stop [66] area_xinyi]
       = Some [example_stop [65] area_yunlong, example_stop [66] area_xinyi]"
  using optimize_route_permutation
    [of "[example_stop [65] area_yunlong, example_stop [66] area_xinyi]"]
  by (simp add: optimize_route_def)

text \<open>
  Claim C10. For three attractions or more, the route that \<open>_optimize_route\<close> returns
  begins with the attraction the input begins with: the index list of \<open>_solve_tsp\<close>
  starts with 0, since the nearest-neighbour tour is seeded with node 0 and every pair
  \<open>(i, j)\<close> of the 2-opt loop has \<open>1 \<le> i\<close>.
\<close>

theorem optimize_route_keeps_first:
  assumes "3 \<le> length attractions"
  shows "\<exists>idx ys. solve_tsp (time_matrix_of attractions) = Some idx \<and> hd idx = 0
     \<and> optimize_route attractions = Some ys \<and> hd ys = hd attractions"
proof -
  from optimize_route_result[OF assms]
  obtain idx where i: "solve_tsp (time_matrix_of attractions) = Some idx"
    "tour (length attractions) idx"
    "optimize_route attractions = Some (map (\<lambda>i. attractions ! i) idx)" by blast
  from i(2) have h: "hd idx = 0" and l: "length idx = length attractions"
    by (simp_all add: tour_def tour_length)
  from l assms have "idx \<noteq> []" "attractions \<noteq> []" by auto
  then have "hd (map (\<lambda>i. attractions ! i) idx) = hd attractions"
    using h by (simp add: hd_map hd_conv_nth)
  with i h show ?thesis by simp
qed

lemma example_travel_times:
  "get_actual_travel_time area_yunlong area_xinyi = 120"
  "get_actual_travel_time area_yunlong area_quanshan = 50"
  "get_actual_travel_time area_xinyi area_quanshan = 120"
  by (simp_all add: get_actual_travel_time_def get_travel_time_def travel_times_unfold
      travel_times_full_def travel_times_literal_def area_defs)

lemma example_route_matrix:
  "time_matrix_of
     [example_stop [65] area_yunlong, example_stop [66] area_xinyi,
      example_stop [67] area_quanshan]
   = [[15, 120, 50], [120, 15, 120], [50, 120, 15]]"
  by (simp add: time_matrix_of_def example_stop_def example_travel_times
      get_actual_travel_time_comm[of area_xinyi area_yunlong]
      get_actual_travel_time_comm[of area_quanshan area_yunlong]
      get_actual_travel_time_comm[of area_quanshan area_xinyi])
     (simp add: get_actual_travel_time_def)

lemma example_route_solve:
  "solve_tsp [[15, 120, 50], [120, 15, 120], [50, 120, 15]] = Some [0, 2, 1]"
proof -
  have nn: "nearest_neighbor_tour [[15, 120, 50], [120, 15, 120], [50, 120, 15]] = [0, 2, 1]"
    by code_simp
  have sw: "two_opt_sweep [[15, 120, 50], [120, 15, 120], [50, 120, 15]] 3 [0, 2, 1]
      = ([0, 2, 1], False)"
    by code_simp
  have lp: "two_opt_loop [[15, 120, 50], [120, 15, 120], [50, 120, 15]] 3 [0, 2, 1]
      = Some [0, 2, 1]"
    by (subst two_opt_loop.simps) (simp only: sw prod.case if_False)
  have len: "length [[15, 120, 50], [120, 15, 120], [50, 120, 15::int]] = 3" by simp
  have "\<not> (3::nat) \<le> 1" by simp
  then show ?thesis
    unfolding solve_tsp_def nn len Let_def by (simp only: if_False lp)
qed

lemma example_route:
  "optimize_route
     [example_stop [65] area_yunlong, example_stop [66] area_xinyi,
      example_stop [67] area_quanshan]
   = Some [example_stop [65] area_yunlong, example_stop [67] area_quanshan,
           example_stop [66] area_xinyi]"
  unfolding optimize_route_def example_route_matrix example_route_solve by simp

theorem optimize_route_keeps_first_witness:
  "3 \<le> length [example_stop [65] area_yunlong, example_stop [66] area_xinyi,
                example_stop [67] area_quanshan]
   \<and> optimize_route
        [example_stop [65] area_yunlong, example_stop [66] area_xinyi,
         example_stop [67] area_quanshan]
      = Some [example_stop [65] area_yunlong, example_stop [67] area_quanshan,
              example_stop [66] area_xinyi]
   \<and> hd [example_stop [65] area_yunlong, example_stop [67] area_quanshan,
          example_stop [66] area_xinyi]
      = hd [example_stop [65] area_yunlong, example_stop [66] area_xinyi,
            example_stop [67] area_quanshan]"
  using optimize_route_keeps_first
    [of "[example_stop [65] area_yunlong, example_stop [66] area_xinyi,
          example_stop [67] area_quanshan]"]
  by (simp add: example_route)














section \<open>The opening-hours evaluator\<close>

lemma py_in_nonempty: "py_in sub s \<Longrightarrow> sub \<noteq> [] \<Longrightarrow> s \<noteq> []"
  by (cases s) auto

text \<open>
  Claim C3, as the code has it. The claim says that a specification with a closed marker
  is closed except on a date whose \<open>MM/DD\<close> token it contains, where it is open. The code
  does the opposite for \<open>closed_marker\<close>: the marker alone is open on 2024-07-15, whose
  token it does not contain, and \<open>"01/01"\<close> followed by the marker is closed on 2024-01-01, whose
  token it contains.
\<close>

theorem closed_marker_counterexample:
  "py_in closed_marker closed_marker
   \<and> \<not> py_in (strftime_md example_date) closed_marker
   \<and> parse_opening_hours (Some closed_marker) (Some example_date) = Inr True
   \<and> py_in closed_marker new_year_closed
   \<and> py_in (strftime_md new_year_date) new_year_closed
   \<and> parse_opening_hours (Some new_year_closed) (Some new_year_date) = Inr False"
  by (simp add: parse_opening_hours_def closed_marker_def not_open_marker_def
      all_day_marker_def strftime_md_def two_digits_def example_date_def new_year_date_def
      new_year_closed_def)

text \<open>
  Claim C3, amended. For every specification that contains a closed marker (\<open>not_open_marker\<close>
  or \<open>closed_marker\<close>) and no all-day marker, and for every requested date or none:
  \<open>parse_opening_hours\<close> returns false when the specification contains \<open>not_open_marker\<close>, and
  also when the \<open>MM/DD\<close> token of the requested date appears in it (the dates a closure
  notice lists are the closed days); it returns true otherwise, that is for a
  specification with \<open>closed_marker\<close> only, on a date whose token it does not contain or when no
  date is given. In particular a specification with \<open>not_open_marker\<close> is closed on every date.
\<close>

theorem closed_marker_result:
  assumes "py_in not_open_marker s \<or> py_in closed_marker s"
    and "\<not> py_in all_day_marker s"
  shows "parse_opening_hours (Some s) visit_date =
           Inr (\<not> py_in not_open_marker s
                \<and> \<not> (case visit_date of None \<Rightarrow> False | Some d \<Rightarrow> py_in (strftime_md d) s))"
proof -
  have "s \<noteq> []"
    using assms(1) py_in_nonempty[of _ s]
    by (auto simp: not_open_marker_def closed_marker_def)
  with assms show ?thesis
    by (auto simp: parse_opening_hours_def split: option.splits)
qed

theorem closed_marker_result_witness:
  "(py_in not_open_marker new_year_closed \<or> py_in closed_marker new_year_closed)
   \<and> \<not> py_in all_day_marker new_year_closed
   \<and> parse_opening_hours (Some new_year_closed) (Some new_year_date) = Inr False
   \<and> parse_opening_hours (Some new_year_closed) (Some example_date) = Inr True
   \<and> parse_opening_hours (Some not_open_marker) (Some example_date) = Inr False"
  using closed_marker_result[of new_year_closed "Some new_year_date"]
  by (simp add: parse_opening_hours_def closed_marker_def not_open_marker_def
      all_day_marker_def strftime_md_def two_digits_def example_date_def new_year_date_def
      new_year_closed_def)

lemma spring_rule_rules:
  "filter (\<lambda>r. r \<noteq> []) (map strip (split_on 59 spring_rule)) = [spring_rule]"
  by (simp add: spring_rule_def strip_def is_space_def)

lemma spring_rule_no_match: "rule_matches example_date spring_rule = Inr False"
  by (simp add: rule_matches_def spring_rule_def first_word_def split_maxsplit1_def
      is_space_def date_in_range_def parse_partial_date_def py_int_def strip_def is_digit_def
      days_in_month_def date_le_def example_date_def Let_def)

text \<open>
  For a rule list the function ends with \<open>return True\<close> on every path, so it never
  returns false, whatever the rules say.
\<close>

lemma rule_list_always_open:
  assumes "\<not> py_in not_open_marker s" and "\<not> py_in closed_marker s"
  shows "parse_opening_hours (Some s) visit_date \<noteq> Inr False"
  using assms
  by (auto simp: parse_opening_hours_def Let_def split: option.splits sum.splits bool.splits)

text \<open>
  Claim C4, at an input where the code departs from it. The specification
  \<open>"03/01-05/31 08:00-17:00"\<close> is a rule list with neither marker. On 2024-07-15 its one
  rule does not match (the date is outside the range) and the token \<open>"07/15"\<close> does not
  appear in it, so the claim gives closed; \<open>parse_opening_hours\<close> returns true.
\<close>

theorem rule_list_never_closed:
  "\<not> py_in all_day_marker spring_rule
   \<and> \<not> py_in not_open_marker spring_rule \<and> \<not> py_in closed_marker spring_rule
   \<and> any_rule_matches example_date
        (filter (\<lambda>r. r \<noteq> []) (map strip (split_on 59 spring_rule))) = Inr False
   \<and> \<not> py_in (strftime_md example_date) spring_rule
   \<and> parse_opening_hours (Some spring_rule) (Some example_date) = Inr True"
proof -
  have a: "\<not> py_in all_day_marker spring_rule"
    "\<not> py_in not_open_marker spring_rule" "\<not> py_in closed_marker spring_rule"
    by (simp_all add: spring_rule_def all_day_marker_def not_open_marker_def closed_marker_def)
  have b: "\<not> py_in (strftime_md example_date) spring_rule"
    by (simp add: spring_rule_def strftime_md_def two_digits_def example_date_def)
  have c: "any_rule_matches example_date [spring_rule] = Inr False"
    by (simp add: spring_rule_no_match)
  have d: "spring_rule \<noteq> []" by (simp add: spring_rule_def)
  show ?thesis
    using a b c d by (simp add: parse_opening_hours_def spring_rule_rules)
qed

section \<open>Scores, ranking and the opening penalty\<close>


lemma set_py_slice_to: "set (py_slice_to top_n xs) \<subseteq> set xs"
  by (auto simp: py_slice_to_def split: option.splits dest: in_set_takeD)

lemma set_map_filter_iff:
  "y \<in> set (List.map_filter f xs) \<longleftrightarrow> (\<exists>x \<in> set xs. f x = Some y)"
  by (induction xs) (auto split: option.splits)

lemma candidates_member:
  "c \<in> set (candidates R themes audiences target_area date_range) \<longleftrightarrow>
     (\<exists>a \<in> set (get_attractions R).
        score_candidate R themes audiences (target_areas_of target_area) date_range a = Some c)"
  by (simp add: candidates_def set_map_filter_iff)

lemma recommend_member:
  assumes "recommend R themes audiences target_area date_range top_n = Inr result"
    and "c \<in> set result"
  shows "c \<in> set (candidates R themes audiences target_area date_range)"
proof -
  from assms(1) have "result = py_slice_to top_n
      (sort_key rank_key (candidates R themes audiences target_area date_range))"
    by (simp add: recommend_def split: if_splits)
  with assms(2) set_py_slice_to[of top_n] show ?thesis by fastforce
qed

lemma recommend_returns:
  "attractions_dict R \<noteq> [] \<Longrightarrow>
     \<exists>result. recommend R themes audiences target_area date_range top_n = Inr result"
  by (simp add: recommend_def)





lemma open_ratio_zero_iff:
  "open_ratio R nm dr \<le> 0 \<longleftrightarrow> (\<forall>d \<in> set dr. \<not> check_opening_status R nm (Some d))"
proof -
  have l: "open_days R nm dr \<le> length dr" by (simp add: open_days_def)
  have z: "open_days R nm dr = 0 \<longleftrightarrow> (\<forall>d \<in> set dr. \<not> check_opening_status R nm (Some d))"
    by (auto simp: open_days_def filter_empty_conv)
  show ?thesis
  proof (cases "open_days R nm dr = 0")
    case True
    with z show ?thesis by (simp add: open_ratio_def)
  next
    case False
    with l have "0 < length dr" by auto
    with False have "0 < open_ratio R nm dr" by (simp add: open_ratio_def)
    with False z show ?thesis by auto
  qed
qed

text \<open>
  Claim C5. For a non-empty date range and an attraction of the graph: if the attraction
  is closed on every requested day, its open fraction is 0 and it is in no candidate list
  and in no result of \<open>recommend\<close>, whatever the limit; it is skipped and nothing is
  raised for it (\<open>recommend\<close> returns whenever the attraction table has a row).
  If its open fraction is positive and below 0.8, it stays a candidate, with the raw
  total reduced by \<open>5 * (1 - fraction)\<close> and the score computed from that; it is in the
  result when no limit cuts the ranked list.
\<close>

theorem closed_attraction_excluded:
  assumes "date_range \<noteq> []" and "attraction \<in> set (get_attractions R)"
  shows "((\<forall>d \<in> set date_range.
            \<not> check_opening_status R (info_name (get_attraction_info R attraction)) (Some d))
          \<longrightarrow> open_ratio R (info_name (get_attraction_info R attraction)) date_range = 0
              \<and> attraction \<notin> fst ` set (candidates R themes audiences target_area (Some date_range))
              \<and> (\<forall>top_n result.
                    recommend R themes audiences target_area (Some date_range) top_n = Inr result
                    \<longrightarrow> attraction \<notin> fst ` set result))
       \<and> (0 < open_ratio R (info_name (get_attraction_info R attraction)) date_range
          \<and> open_ratio R (info_name (get_attraction_info R attraction)) date_range < 8 / 10
          \<longrightarrow> raw_score R themes audiences (target_areas_of target_area) (Some date_range) attraction
                = Some (bonus_total R themes audiences (target_areas_of target_area)
                          (Some date_range) attraction
                        - 5 * (1 - open_ratio R (info_name (get_attraction_info R attraction))
                                     date_range))
              \<and> (attraction,
                  final_score
                    (bonus_total R themes audiences (target_areas_of target_area)
                       (Some date_range) attraction
                     - 5 * (1 - open_ratio R (info_name (get_attraction_info R attraction))
                                  date_range)),
                  get_attraction_info R attraction)
                \<in> set (candidates R themes audiences target_area (Some date_range))
              \<and> (\<forall>result.
                    recommend R themes audiences target_area (Some date_range) None = Inr result
                    \<longrightarrow> attraction \<in> fst ` set result))
       \<and> (attractions_dict R \<noteq> []
          \<longrightarrow> (\<exists>result. recommend R themes audiences target_area (Some date_range) top_n
                          = Inr result))"
proof (intro conjI impI)
  let ?nm = "info_name (get_attraction_info R attraction)"
  let ?ta = "target_areas_of target_area"
  {
    assume closed: "\<forall>d \<in> set date_range. \<not> check_opening_status R ?nm (Some d)"
    then have le: "open_ratio R ?nm date_range \<le> 0" by (simp add: open_ratio_zero_iff)
    moreover have "0 \<le> open_ratio R ?nm date_range" by (simp add: open_ratio_def)
    ultimately show "open_ratio R ?nm date_range = 0" by simp
    from le assms(1) have none:
      "score_candidate R themes audiences ?ta (Some date_range) attraction = None"
      by (simp add: score_candidate_def raw_score_def open_penalty_def)
    have fst_eq: "fst c = a"
      if "score_candidate R themes audiences ?ta (Some date_range) a = Some c" for a c
      using that by (auto simp: score_candidate_def split: option.splits)
    show notin: "attraction \<notin> fst ` set (candidates R themes audiences target_area (Some date_range))"
    proof
      assume "attraction \<in> fst ` set (candidates R themes audiences target_area (Some date_range))"
      then obtain c a where "fst c = attraction"
        "score_candidate R themes audiences ?ta (Some date_range) a = Some c"
        by (auto simp: candidates_member)
      with fst_eq[of a c] none show False by simp
    qed
    show "\<forall>top_n result.
        recommend R themes audiences target_area (Some date_range) top_n = Inr result
        \<longrightarrow> attraction \<notin> fst ` set result"
      using notin recommend_member by blast
  }
  {
    assume part: "0 < open_ratio R ?nm date_range \<and> open_ratio R ?nm date_range < 8 / 10"
    with assms(1) show raw: "raw_score R themes audiences ?ta (Some date_range) attraction
        = Some (bonus_total R themes audiences ?ta (Some date_range) attraction
                - 5 * (1 - open_ratio R ?nm date_range))"
      by (simp add: raw_score_def open_penalty_def algebra_simps)
    then have sc: "score_candidate R themes audiences ?ta (Some date_range) attraction
        = Some (attraction,
                final_score (bonus_total R themes audiences ?ta (Some date_range) attraction
                             - 5 * (1 - open_ratio R ?nm date_range)),
                get_attraction_info R attraction)"
      by (simp add: score_candidate_def)
    with assms(2) show mem: "(attraction,
        final_score (bonus_total R themes audiences ?ta (Some date_range) attraction
                     - 5 * (1 - open_ratio R ?nm date_range)),
        get_attraction_info R attraction)
        \<in> set (candidates R themes audiences target_area (Some date_range))"
      by (auto simp: candidates_member)
    show "\<forall>result.
        recommend R themes audiences target_area (Some date_range) None = Inr result
        \<longrightarrow> attraction \<in> fst ` set result"
    proof (intro allI impI)
      fix result
      assume "recommend R themes audiences target_area (Some date_range) None = Inr result"
      then have "set result = set (candidates R themes audiences target_area (Some date_range))"
        by (auto simp: recommend_def py_slice_to_def split: if_splits)
      with mem show "attraction \<in> fst ` set result" by force
    qed
  }
  {
    assume "attractions_dict R \<noteq> []"
    then show "\<exists>result. recommend R themes audiences target_area (Some date_range) top_n
        = Inr result"
      by (rule recommend_returns)
  }
qed

section \<open>The example recommender\<close>

lemma example_attractions:
  "get_attractions example_recommender = map (\<lambda>c. prefix_attraction @ [c]) [65, 66, 67, 68, 69, 70]"
  by (simp add: get_attractions_def example_recommender_def example_node_def)

lemma example_name:
  "remove_all prefix_attraction 0 (prefix_attraction @ [c]) = [c]"
  by (simp add: prefix_attraction_def eval_nat_numeral)

lemma example_find:
  "c \<in> set [65, 66, 67, 68, 69, 70] \<Longrightarrow>
   find (\<lambda>n. node_id n = prefix_attraction @ [c]) (kg_nodes example_recommender)
     = Some (example_node c)"
  by (auto simp: example_recommender_def example_node_def)

lemma example_info_A:
  "get_attraction_info example_recommender (prefix_attraction @ [65]) =
     \<lparr>info_name = [65], info_rating = 9 / 2, info_comment_count = 10000000,
      info_address = [], info_opening_hours = Some []\<rparr>"
  by (simp add: get_attraction_info_def example_find example_name Let_def)
     (simp add: example_recommender_def example_node_def parse_comment_count_def is_digit_def Let_def example_name)

lemma example_info_B:
  "get_attraction_info example_recommender (prefix_attraction @ [66]) =
     \<lparr>info_name = [66], info_rating = 1, info_comment_count = 0,
      info_address = [], info_opening_hours = Some []\<rparr>"
  by (simp add: get_attraction_info_def example_find example_name Let_def)
     (simp add: example_recommender_def example_node_def Let_def example_name)

lemma example_info_other:
  "c \<in> set [67, 68, 69, 70] \<Longrightarrow>
   get_attraction_info example_recommender (prefix_attraction @ [c]) =
     \<lparr>info_name = [c], info_rating = 7 / 2, info_comment_count = 0,
      info_address = [], info_opening_hours = Some []\<rparr>"
  by (simp add: get_attraction_info_def example_find example_name Let_def)
     (auto simp: example_recommender_def example_node_def empty_row_def
        get_related_attributes_def degree_def Let_def example_name)


lemma example_no_edges: "get_related_attributes example_recommender node rel = []"
  by (simp add: get_related_attributes_def example_recommender_def)

lemma example_comment_bonus: "comment_bonus 10000000 = 8" "comment_bonus 0 = 1"
  by (simp_all add: comment_bonus_def comment_intervals_def)

lemma example_bonus_total:
  "bonus_total example_recommender [] [] [] dr (prefix_attraction @ [65]) = 92"
  "bonus_total example_recommender [] [] [] dr (prefix_attraction @ [66]) = 78"
  "c \<in> set [67, 68, 69, 70] \<Longrightarrow>
     bonus_total example_recommender [] [] [] dr (prefix_attraction @ [c]) = 83"
  by (simp_all add: bonus_total_def example_info_A example_info_B example_info_other
      example_no_edges example_comment_bonus match_ratio_def area_score_def
      seasonal_bonus_def Let_def split: option.splits list.splits)







lemma example_status_A:
  "check_opening_status example_recommender [65] (Some d) = False"
  by (simp add: check_opening_status_def example_recommender_def parse_opening_hours_def
      not_open_marker_def all_day_marker_def)

lemma example_status_B:
  "check_opening_status example_recommender [66] (Some d)
     = (\<not> py_in (strftime_md d) new_year_closed)"
proof -
  have "new_year_closed \<noteq> []" "\<not> py_in all_day_marker new_year_closed"
    "\<not> py_in not_open_marker new_year_closed" "py_in closed_marker new_year_closed"
    by (simp_all add: new_year_closed_def closed_marker_def all_day_marker_def
        not_open_marker_def)
  then show ?thesis
    by (simp add: check_opening_status_def example_recommender_def parse_opening_hours_def)
qed

lemma example_open_ratio:
  "open_ratio example_recommender [65] example_range = 0"
  "open_ratio example_recommender [66] example_range = 2 / 3"
  by (simp_all add: open_ratio_def open_days_def example_range_def example_status_A
      example_status_B strftime_md_def two_digits_def new_year_closed_def closed_marker_def)

lemma example_members:
  "prefix_attraction @ [65] \<in> set (get_attractions example_recommender)"
  "prefix_attraction @ [66] \<in> set (get_attractions example_recommender)"
  by (simp_all add: example_attractions)

lemma example_range_nonempty: "example_range \<noteq> []"
  by (simp add: example_range_def)

lemma example_penalised_score: "final_score (78 - 5 * (1 - 2 / 3)) = 41 / 10"
  by code_simp

theorem closed_attraction_excluded_witness:
  "example_range \<noteq> []
   \<and> prefix_attraction @ [65] \<in> set (get_attractions example_recommender)
   \<and> prefix_attraction @ [66] \<in> set (get_attractions example_recommender)
   \<and> open_days example_recommender [65] example_range = 0
   \<and> prefix_attraction @ [65]
        \<notin> fst ` set (candidates example_recommender [] [] None (Some example_range))
   \<and> open_ratio example_recommender [66] example_range = 2 / 3
   \<and> example_candidate 66 (41 / 10) 1 0
        \<in> set (candidates example_recommender [] [] None (Some example_range))"
proof -
  have closed: "\<forall>d \<in> set example_range.
      \<not> check_opening_status example_recommender
          (info_name (get_attraction_info example_recommender (prefix_attraction @ [65])))
          (Some d)"
    by (simp add: example_info_A example_status_A)
  have part: "0 < open_ratio example_recommender
          (info_name (get_attraction_info example_recommender (prefix_attraction @ [66])))
          example_range
      \<and> open_ratio example_recommender
          (info_name (get_attraction_info example_recommender (prefix_attraction @ [66])))
          example_range < 8 / 10"
    by (simp add: example_info_B example_open_ratio)
  from closed_attraction_excluded
         [OF example_range_nonempty example_members(1), of "[]" "[]" None] closed
  have a: "prefix_attraction @ [65]
        \<notin> fst ` set (candidates example_recommender [] [] None (Some example_range))"
    by blast
  from closed_attraction_excluded
         [OF example_range_nonempty example_members(2), of "[]" "[]" None] part
  have "(prefix_attraction @ [66],
         final_score
           (bonus_total example_recommender [] [] (target_areas_of None) (Some example_range)
              (prefix_attraction @ [66])
            - 5 * (1 - open_ratio example_recommender
                     (info_name (get_attraction_info example_recommender
                        (prefix_attraction @ [66]))) example_range)),
         get_attraction_info example_recommender (prefix_attraction @ [66]))
        \<in> set (candidates example_recommender [] [] None (Some example_range))"
    by blast
  then have b: "example_candidate 66 (41 / 10) 1 0
        \<in> set (candidates example_recommender [] [] None (Some example_range))"
    by (simp only: example_info_B attraction_record.simps example_open_ratio
        target_areas_of_def option.case example_bonus_total example_penalised_score
        example_candidate_def)
  have "open_days example_recommender [65] example_range = 0"
    by (simp add: open_days_def example_status_A)
  with a b show ?thesis
    by (simp add: example_range_nonempty example_members example_open_ratio)
qed





end
